theory Spec2Isabelle
  imports Complex_Main
begin

section \<open>The scene of pages/index.js: terrain loop, LED panels and the selection object\<close>

text \<open>
  The page is a React component tree. The parts modelled here are the pure computations
  inside it: the per-frame terrain offsets of \<open>Landscape\<close>, the arrays of meshes that
  \<open>Panel\<close> and \<open>Panels\<close> return, and the three state updates that \<open>Controls\<close> sends to
  \<open>setSelected\<close>.

  JavaScript numbers are IEEE doubles; they are modelled by \<open>real\<close>, so rounding is not
  part of the model. Array indices and the integer constants are \<open>nat\<close>.
\<close>

subsection \<open>Values and errors\<close>

text \<open>
  Reading a property of \<open>undefined\<close> throws a TypeError. Nothing in the page catches it,
  so a throw anywhere in a render is the result of the whole render.
\<close>

datatype error = TypeError

type_synonym vec3 = "real \<times> real \<times> real"

text \<open>
  The values read from the \<open>selected\<close> object: a boolean under a panel id, an object with
  string properties under \<open>colors\<close>, \<open>JUndefined\<close> for a property that is nowhere, and
  \<open>JBuiltin\<close> for a member of \<open>Object.prototype\<close> (a function, or the prototype itself
  under \<open>__proto__\<close>): truthy, and without enumerable properties of its own.
\<close>

datatype jsval = JUndefined | JBool bool | JObj "(string \<times> string) list" | JBuiltin

text \<open>
  An object is the list of its own properties in insertion order. (\<open>Object.keys\<close> lists
  integer-like keys first; only the number of keys and their set are used below.)
\<close>

type_synonym 'v obj = "(string \<times> 'v) list"

type_synonym selected = "jsval obj"

definition keys :: "'v obj \<Rightarrow> string list" where
  \<comment> \<open>\<open>Object.keys(o)\<close>\<close>
  "keys ob = map fst ob"

definition inherited :: "string list" where
  \<comment> \<open>the property names of \<open>Object.prototype\<close>, which every object literal inherits\<close>
  "inherited =
     [''constructor'', ''hasOwnProperty'', ''isPrototypeOf'', ''propertyIsEnumerable'',
      ''toLocaleString'', ''toString'', ''valueOf'', ''__proto__'', ''__defineGetter__'',
      ''__defineSetter__'', ''__lookupGetter__'', ''__lookupSetter__'']"

definition get :: "selected \<Rightarrow> string \<Rightarrow> jsval" where
  \<comment> \<open>\<open>selected[k]\<close>: the own property, else the inherited one, else \<open>undefined\<close>\<close>
  "get ob k =
     (case map_of ob k of
        Some v \<Rightarrow> v
      | None \<Rightarrow> if k \<in> set inherited then JBuiltin else JUndefined)"

fun truthy :: "jsval \<Rightarrow> bool" where
  \<comment> \<open>\<open>!!v\<close>\<close>
  "truthy JUndefined = False"
| "truthy (JBool b) = b"
| "truthy (JObj ps) = True"
| "truthy JBuiltin = True"

fun set_prop :: "string \<Rightarrow> 'v \<Rightarrow> 'v obj \<Rightarrow> 'v obj" where
  \<comment> \<open>\<open>{...o, [k]: v}\<close>: an existing key keeps its place, a new key goes last\<close>
  "set_prop k v [] = [(k, v)]"
| "set_prop k v ((k', v') # ps) =
     (if k' = k then (k, v) # ps else (k', v') # set_prop k v ps)"

fun spread :: "jsval \<Rightarrow> string obj" where
  \<comment> \<open>\<open>{...v}\<close>: spreading \<open>undefined\<close>, a boolean or a function copies no property\<close>
  "spread (JObj ps) = ps"
| "spread JUndefined = []"
| "spread (JBool b) = []"
| "spread JBuiltin = []"

subsection \<open>Landscape: the two terrain offsets\<close>

definition trunc :: "real \<Rightarrow> int" where
  \<comment> \<open>rounding towards zero\<close>
  "trunc x = (if 0 \<le> x then \<lfloor>x\<rfloor> else \<lceil>x\<rceil>)"

definition js_rem :: "real \<Rightarrow> real \<Rightarrow> real" where
  \<comment> \<open>\<open>x % y\<close> for \<open>y \<noteq> 0\<close>: the remainder has the sign of \<open>x\<close>. (The only divisor in the
      source is the literal 2; \<open>x % 0\<close> is NaN and is outside this definition.)\<close>
  "js_rem x y = x - y * of_int (trunc (x / y))"

record terrain_z =
  terrain1 :: real
  terrain2 :: real

definition Landscape_useFrame :: "real \<Rightarrow> terrain_z" where
  \<comment> \<open>the callback of \<open>useFrame\<close> in \<open>Landscape\<close>, as a function of \<open>state.clock.elapsedTime\<close>\<close>
  "Landscape_useFrame elapsedTime =
     \<lparr>terrain1 = js_rem (elapsedTime * 0.15) 2,
      terrain2 = js_rem (elapsedTime * 0.15) 2 - 2\<rparr>"

subsection \<open>The dataset and the module constants\<close>

text \<open>
  \<open>teModel\<close> is imported from \<open>../data/leds\<close>, a static dataset;
  it is a parameter of \<open>Panels\<close>. A record of the dataset may lack \<open>leds\<close> (and an edge has
  no \<open>id\<close>), hence the options.
\<close>

record panel =
  id_panel :: "string option"
  leds :: "vec3 list option"

record teModel =
  panels :: "panel list"
  edges :: "panel list"

definition key_of :: "string option \<Rightarrow> string" where
  \<comment> \<open>a property key is a string: \<open>selected[undefined]\<close> reads the key "undefined"\<close>
  "key_of i = (case i of None \<Rightarrow> ''undefined'' | Some s \<Rightarrow> s)"

text \<open>
  The constants declared before \<open>Panel\<close>. The functions below take them as a record, so
  that statements about other cap values can be made about the same function bodies;
  \<open>consts_js\<close> holds the values of the source. \<open>skipLeds = None\<close> stands for \<open>false\<close>.
\<close>

record caps =
  normalScale :: real
  skipLeds :: "nat option"
  maxPerPanel :: nat
  maxPanels :: nat
  ledSize :: real
  edgeLedSize :: real

definition consts_js :: caps where
  "consts_js =
     \<lparr>normalScale = 1.5, skipLeds = Some 10, maxPerPanel = 3000, maxPanels = 200,
      ledSize = 0.004, edgeLedSize = 0.009\<rparr>"

subsection \<open>Panel\<close>

record mesh =
  key :: nat
  position :: vec3
  radius :: real
  color :: "string option"

definition transform :: "caps \<Rightarrow> vec3 \<Rightarrow> vec3" where
  \<comment> \<open>the three lines computing \<open>x\<close>, \<open>y\<close>, \<open>z\<close> from \<open>ledPos\<close>\<close>
  "transform c = (\<lambda>(p0, p1, p2).
     (p2 * normalScale c * (- 1) + 0.7, p1 * normalScale c, p0 * normalScale c * (- 1) + 5))"

definition skipped :: "nat option \<Rightarrow> nat \<Rightarrow> bool" where
  \<comment> \<open>\<open>skipLeds !== false && i % skipLeds != 0\<close>; \<open>i % 0\<close> is NaN, and \<open>NaN != 0\<close> is true\<close>
  "skipped s i = (case s of None \<Rightarrow> False
                  | Some k \<Rightarrow> (if k = 0 then True else 0 < i mod k))"

definition led :: "caps \<Rightarrow> real \<Rightarrow> string option \<Rightarrow> nat \<times> vec3 \<Rightarrow> mesh option" where
  \<comment> \<open>the callback of \<open>panel.leds.map\<close>; \<open>None\<close> is the \<open>undefined\<close> of a bare \<open>return\<close>\<close>
  "led c sz col = (\<lambda>(i, ledPos).
     if i > maxPerPanel c then None
     else if skipped (skipLeds c) i then None
     else Some \<lparr>key = i, position = transform c ledPos, radius = sz, color = col\<rparr>)"

definition Panel :: "caps \<Rightarrow> panel \<Rightarrow> real \<Rightarrow> string option \<Rightarrow> error + mesh option list" where
  \<comment> \<open>\<open>panel.leds.map(...)\<close> throws when \<open>panel.leds\<close> is undefined\<close>
  "Panel c p sz col =
     (case leds p of
        None \<Rightarrow> Inl TypeError
      | Some ls \<Rightarrow> Inr (map (led c sz col) (enumerate 0 ls)))"

definition shown :: "'a option list \<Rightarrow> 'a list" where
  \<comment> \<open>what React mounts from an array of children: the entries that are not \<open>undefined\<close>\<close>
  "shown xs = concat (map (\<lambda>x. case x of None \<Rightarrow> [] | Some y \<Rightarrow> [y]) xs)"

subsection \<open>Panels\<close>

fun read_color :: "jsval \<Rightarrow> string \<Rightarrow> error + string option" where
  \<comment> \<open>\<open>selected.colors.primary\<close>: a read on \<open>undefined\<close> throws, a read on a boolean gives
      \<open>undefined\<close>; the result is the argument of \<open>new THREE.Color\<close>\<close>
  "read_color JUndefined k = Inl TypeError"
| "read_color (JBool b) k = Inr None"
| "read_color (JObj ps) k = Inr (map_of ps k)"
| "read_color JBuiltin k = Inr None"

definition panel_child ::
  "caps \<Rightarrow> selected \<Rightarrow> string option \<Rightarrow> nat \<times> panel \<Rightarrow> (error + mesh option list) option" where
  \<comment> \<open>the callback of \<open>teModel.panels.map\<close>; \<open>Some r\<close> is the element \<open><Panel .../>\<close>, with
      \<open>r\<close> what its render gives\<close>
  "panel_child c sel primaryColor = (\<lambda>(i, p).
     if length (keys sel) > 1 \<and> \<not> truthy (get sel (key_of (id_panel p))) then None
     else if i > maxPanels c then None
     else Some (Panel c p (ledSize c) primaryColor))"

definition edge_child ::
  "caps \<Rightarrow> string option \<Rightarrow> nat \<times> panel \<Rightarrow> (error + mesh option list) option" where
  \<comment> \<open>the callback of \<open>teModel.edges.map\<close>\<close>
  "edge_child c edgeColor = (\<lambda>(i, e).
     if i > maxPanels c then None
     else Some (Panel c e (edgeLedSize c) edgeColor))"

fun mount :: "(error + 'a) option list \<Rightarrow> error + 'a option list" where
  \<comment> \<open>rendering an array of children: the first throw is the result\<close>
  "mount [] = Inr []"
| "mount (None # cs) = (case mount cs of Inl e \<Rightarrow> Inl e | Inr xs \<Rightarrow> Inr (None # xs))"
| "mount (Some (Inl e) # cs) = Inl e"
| "mount (Some (Inr x) # cs) = (case mount cs of Inl e \<Rightarrow> Inl e | Inr xs \<Rightarrow> Inr (Some x # xs))"

record group =
  panel_children :: "mesh option list option list"
  edge_children :: "mesh option list option list"

definition Panels :: "caps \<Rightarrow> teModel \<Rightarrow> selected \<Rightarrow> error + group" where
  "Panels c m sel =
     (case read_color (get sel ''colors'') ''primary'' of
        Inl e \<Rightarrow> Inl e
      | Inr primaryColor \<Rightarrow>
     (case read_color (get sel ''colors'') ''edge'' of
        Inl e \<Rightarrow> Inl e
      | Inr edgeColor \<Rightarrow>
     (case mount (map (panel_child c sel primaryColor) (enumerate 0 (panels m))) of
        Inl e \<Rightarrow> Inl e
      | Inr ps \<Rightarrow>
     (case mount (map (edge_child c edgeColor) (enumerate 0 (edges m))) of
        Inl e \<Rightarrow> Inl e
      | Inr es \<Rightarrow> Inr \<lparr>panel_children = ps, edge_children = es\<rparr>))))"

subsection \<open>Controls and the state of Home\<close>

definition Home_selected :: selected where
  \<comment> \<open>the initial value given to \<open>React.useState\<close>\<close>
  "Home_selected = [(''colors'', JObj [(''primary'', ''#e84971''), (''edge'', ''#39f5e6'')])]"

definition updateColor :: "string \<Rightarrow> string \<Rightarrow> selected \<Rightarrow> selected" where
  \<comment> \<open>\<open>{...selected, colors: {...selected.colors, [id]: value}}\<close>\<close>
  "updateColor i v sel =
     set_prop ''colors'' (JObj (set_prop i v (spread (get sel ''colors'')))) sel"

definition clear :: "selected \<Rightarrow> selected" where
  \<comment> \<open>the Clear button: \<open>{colors: selected.colors}\<close>\<close>
  "clear sel = [(''colors'', get sel ''colors'')]"

definition toggle :: "string \<Rightarrow> selected \<Rightarrow> selected" where
  \<comment> \<open>the checkbox of the panel with key \<open>k\<close>: \<open>{...selected, [panel.id]: !selected[panel.id]}\<close>\<close>
  "toggle k sel = set_prop k (JBool (\<not> truthy (get sel k))) sel"

subsection \<open>The selection as the specification reads it\<close>

text \<open>
  The specification speaks of a selection with two parts, the panel entries \<open>enabled\<close> and
  the \<open>colors\<close>. In the source both live in the one object \<open>selected\<close>: \<open>colors\<close> is the
  property of that name and the panel entries are all the other properties.
\<close>

definition enabled :: "selected \<Rightarrow> selected" where
  "enabled sel = filter (\<lambda>kv. fst kv \<noteq> ''colors'') sel"

definition color_of :: "selected \<Rightarrow> string \<Rightarrow> string option" where
  "color_of sel w = map_of (spread (get sel ''colors'')) w"



subsection \<open>A dataset of any length\<close>

definition numbered_panels :: "nat \<Rightarrow> panel list" where
  \<comment> \<open>\<open>n\<close> panels with the ids P, PP, PPP, ..., each with one LED at the origin\<close>
  "numbered_panels n =
     map (\<lambda>i. \<lparr>id_panel = Some (replicate (Suc i) CHR ''P''), leds = Some [(0, 0, 0)]\<rparr>) [0..<n]"

subsection \<open>Facts about the remainder and about objects\<close>

lemma js_rem_nonneg:
  assumes "0 \<le> x"
  shows "0 \<le> js_rem x 2" and "js_rem x 2 < 2"
proof -
  have t: "trunc (x / 2) = \<lfloor>x / 2\<rfloor>" using assms by (simp add: trunc_def)
  have lo: "of_int \<lfloor>x / 2\<rfloor> \<le> x / 2" by (rule of_int_floor_le)
  have hi: "x / 2 < of_int \<lfloor>x / 2\<rfloor> + 1" by linarith
  show "0 \<le> js_rem x 2" using lo by (simp add: js_rem_def t)
  show "js_rem x 2 < 2" using hi by (simp add: js_rem_def t field_simps)
qed

lemma map_of_set_prop:
  "map_of (set_prop k v ob) k' = (if k' = k then Some v else map_of ob k')"
  by (induction ob) auto

lemma get_set_prop: "get (set_prop k v ob) k' = (if k' = k then v else get ob k')"
  by (simp add: get_def map_of_set_prop)



lemma filter_set_prop_same:
  "filter (\<lambda>kv. fst kv \<noteq> k) (set_prop k v ob) = filter (\<lambda>kv. fst kv \<noteq> k) ob"
  by (induction ob) auto

lemma enabled_updateColor: "enabled (updateColor w v s) = enabled s"
  by (simp add: enabled_def updateColor_def filter_set_prop_same)

lemma enabled_clear: "enabled (clear s) = []"
  by (simp add: enabled_def clear_def)



subsection \<open>Facts about mounting and counting\<close>

lemma error_is_TypeError: "TypeError = (e::error)"
  by (cases e) simp

lemma mount_eq:
  "mount cs = (if Some (Inl TypeError) \<in> set cs then Inl TypeError
               else Inr (map (map_option projr) cs))"
  by (induction cs rule: mount.induct) (auto intro: error_is_TypeError error_is_TypeError [symmetric])


lemma shown_map_length:
  "length (shown (map f xs)) = length (filter (\<lambda>x. f x \<noteq> None) xs)"
  by (induction xs) (auto simp: shown_def)

lemma shown_map:
  "shown (map f xs) = map (\<lambda>x. the (f x)) (filter (\<lambda>x. f x \<noteq> None) xs)"
  by (induction xs) (auto simp: shown_def)

lemma filter_enumerate:
  "length (filter (\<lambda>(i, x). P i) (enumerate n xs)) = length (filter P [n..<n + length xs])"
proof -
  have "length (filter P (map fst ys)) = length (filter (\<lambda>(i, x). P i) ys)"
    for ys :: "(nat \<times> 'a) list"
    by (induction ys) auto
  from this [of "enumerate n xs"] show ?thesis by simp
qed

lemma count_multiples_Suc:
  "0 < k \<Longrightarrow> length (filter (\<lambda>i. i mod k = 0) [0..<Suc n]) = n div k + 1"
proof (induction n)
  case 0 then show ?case by simp
next
  case (Suc n)
  have "length (filter (\<lambda>i. i mod k = 0) [0..<Suc (Suc n)])
      = length (filter (\<lambda>i. i mod k = 0) [0..<Suc n]) + (if Suc n mod k = 0 then 1 else 0)"
    by (simp only: upt_Suc_append [of 0 "Suc n"] le0 filter_append length_append if_True)
       simp
  also have "\<dots> = n div k + 1 + (if Suc n mod k = 0 then 1 else 0)"
    using Suc by simp
  also have "\<dots> = Suc n div k + 1"
    by (simp add: div_Suc)
  finally show ?case .
qed

lemma count_multiples:
  assumes "0 < k"
  shows "length (filter (\<lambda>i. i mod k = 0) [0..<n]) = (n + k - 1) div k"
proof (cases n)
  case 0 with assms show ?thesis by simp
next
  case (Suc m)
  have "(Suc m + k - 1) div k = m div k + 1" using assms by simp
  with count_multiples_Suc [OF assms, of m] Suc show ?thesis by simp
qed

lemma filter_le_upt: "filter (\<lambda>i. i \<le> M) [0..<n] = [0..<min n (Suc M)]"
proof (induction n)
  case 0 then show ?case by simp
next
  case (Suc n)
  show ?case
  proof (cases "n \<le> M")
    case True
    with Suc show ?thesis by (simp add: min_def)
  next
    case False
    then have "min (Suc n) (Suc M) = min n (Suc M)" by (simp add: min_def)
    with Suc False show ?thesis by simp
  qed
qed

lemma led_None_iff:
  "led c sz col (i, pos) = None \<longleftrightarrow> (maxPerPanel c < i \<or> skipped (skipLeds c) i)"
  by (simp add: led_def)

lemma Panel_Inr: "leds p = Some ls \<Longrightarrow> Panel c p sz col = Inr (map (led c sz col) (enumerate 0 ls))"
  by (simp add: Panel_def)


lemma shown_leds_length:
  "length (shown (map (led c sz col) (enumerate 0 ls)))
     = length (filter (\<lambda>i. \<not> skipped (skipLeds c) i) [0..<min (length ls) (Suc (maxPerPanel c))])"
proof -
  have "(\<lambda>x. led c sz col x \<noteq> None)
      = (\<lambda>(i, pos). (\<lambda>i. i \<le> maxPerPanel c \<and> \<not> skipped (skipLeds c) i) i)"
    by (auto simp: fun_eq_iff led_def split: if_splits)
  then have "length (shown (map (led c sz col) (enumerate 0 ls)))
      = length (filter (\<lambda>i. i \<le> maxPerPanel c \<and> \<not> skipped (skipLeds c) i) [0..<length ls])"
    by (simp only: shown_map_length filter_enumerate) simp
  also have "\<dots> = length (filter (\<lambda>i. \<not> skipped (skipLeds c) i)
                       (filter (\<lambda>i. i \<le> maxPerPanel c) [0..<length ls]))"
    by (simp add: conj_commute)
  finally show ?thesis by (simp only: filter_le_upt)
qed

lemma shown_leds_count:
  "length (shown (map (led c sz col) (enumerate 0 ls)))
     = (case skipLeds c of
          None \<Rightarrow> min (length ls) (maxPerPanel c + 1)
        | Some k \<Rightarrow> if k = 0 then 0 else (min (length ls) (maxPerPanel c + 1) + k - 1) div k)"
proof (cases "skipLeds c")
  case None
  then show ?thesis by (simp add: shown_leds_length skipped_def)
next
  case (Some k)
  show ?thesis
  proof (cases "k = 0")
    case True
    with Some show ?thesis by (simp add: shown_leds_length skipped_def)
  next
    case False
    then have "(\<lambda>i. \<not> skipped (Some k) i) = (\<lambda>i. i mod k = 0)"
      by (simp add: skipped_def fun_eq_iff)
    with Some False show ?thesis
      by (simp add: shown_leds_length count_multiples)
  qed
qed

lemma shown_leds:
  "shown (map (led c sz col) (enumerate 0 ls))
     = map (\<lambda>(i, pos). \<lparr>key = i, position = transform c pos, radius = sz, color = col\<rparr>)
         (filter (\<lambda>(i, pos). i \<le> maxPerPanel c \<and> \<not> skipped (skipLeds c) i) (enumerate 0 ls))"
proof -
  have "shown (map f xs) = map g (filter P xs)"
    if "\<And>x. f x = (if P x then Some (g x) else None)"
    for f :: "nat \<times> vec3 \<Rightarrow> mesh option" and g P xs
    using that by (induction xs) (auto simp: shown_def)
  then show ?thesis by (rule) (auto simp: led_def split: if_splits)
qed





lemma Panel_emits:
  assumes "leds p = Some ls"
  shows "\<exists>out. Panel c p sz col = Inr out
         \<and> length (shown out)
           = (case skipLeds c of
                None \<Rightarrow> min (length ls) (maxPerPanel c + 1)
              | Some k \<Rightarrow> if k = 0 then 0
                          else (min (length ls) (maxPerPanel c + 1) + k - 1) div k)"
  using assms by (simp add: Panel_Inr shown_leds_count)

lemma map_upt_cap:
  "map (\<lambda>i. if M < i then a else b) [0..<n]
     = replicate (min n (Suc M)) b @ replicate (n - Suc M) a"
proof (induction n)
  case 0 then show ?case by simp
next
  case (Suc n)
  show ?case
  proof (cases "M < n")
    case True
    then have "min (Suc n) (Suc M) = min n (Suc M)" and "Suc n - Suc M = Suc (n - Suc M)"
      by (simp_all add: min_def)
    with Suc True show ?thesis by (simp add: replicate_append_same)
  next
    case False
    then have "min (Suc n) (Suc M) = Suc (min n (Suc M))" and "Suc n - Suc M = 0" "n - Suc M = 0"
      by (simp_all add: min_def)
    with Suc False show ?thesis by (simp add: replicate_append_same)
  qed
qed

lemma enumerate_map_upt: "enumerate 0 (map f [0..<n]) = map (\<lambda>i. (i, f i)) [0..<n]"
  by (simp add: enumerate_eq_zip zip_map2 zip_same_conv_map)

lemma Panels_numbered:
  "Panels consts_js \<lparr>panels = numbered_panels n, edges = []\<rparr> Home_selected
   = Inr \<lparr>panel_children =
            replicate (min n 201)
              (Some [Some \<lparr>key = 0, position = (0.7, 0, 5), radius = 0.004, color = Some ''#e84971''\<rparr>])
            @ replicate (n - 201) None,
          edge_children = []\<rparr>"
proof -
  let ?led = "\<lparr>key = 0, position = (0.7, 0, 5), radius = 0.004, color = Some ''#e84971''\<rparr>"
  have "map (panel_child consts_js Home_selected (Some ''#e84971'')) (enumerate 0 (numbered_panels n))
      = map (\<lambda>i. if 200 < i then None else Some (Inr [Some ?led])) [0..<n]"
    by (simp add: numbered_panels_def enumerate_map_upt comp_def panel_child_def Home_selected_def
        keys_def Panel_def led_def skipped_def transform_def consts_js_def)
  also have "\<dots> = replicate (min n 201) (Some (Inr [Some ?led])) @ replicate (n - 201) None"
    using map_upt_cap [of 200 None "Some (Inr [Some ?led])" n] by simp
  finally have ch: "map (panel_child consts_js Home_selected (Some ''#e84971''))
      (enumerate 0 (numbered_panels n))
      = replicate (min n 201) (Some (Inr [Some ?led])) @ replicate (n - 201) None" .
  have rc: "read_color (get Home_selected ''colors'') ''primary'' = Inr (Some ''#e84971'')"
    "read_color (get Home_selected ''colors'') ''edge'' = Inr (Some ''#39f5e6'')"
    by (simp_all add: Home_selected_def get_def inherited_def)
  show ?thesis
    by (simp add: Panels_def rc ch mount_eq set_replicate_conv_if)
qed

subsection \<open>Facts about Panels and the updates of Controls\<close>

lemma read_color_Inl_iff: "read_color v k = Inl e \<longleftrightarrow> v = JUndefined"
  by (cases v; cases e) simp_all






lemma nth_map_enumerate:
  "i < length xs \<Longrightarrow> map f (enumerate 0 xs) ! i = f (i, xs ! i)"
  by (simp add: nth_enumerate_eq)













subsection \<open>Theorems\<close>

text \<open>
  C1. The claim puts both offsets in \<open>[-2, 0)\<close>. At \<open>elapsedTime = 0\<close> the first terrain
  is at offset 0, which is not below 0.
\<close>

theorem terrain1_at_zero:
  "terrain1 (Landscape_useFrame 0) = 0 \<and> \<not> terrain1 (Landscape_useFrame 0) < 0"
  by (simp add: Landscape_useFrame_def js_rem_def trunc_def)

text \<open>
  C1, as the code has it: for every elapsed time \<open>t \<ge> 0\<close> the two offsets differ by
  exactly 2, the first lies in \<open>[0, 2)\<close> and the second in \<open>[-2, 0)\<close> (in real arithmetic).
\<close>

theorem terrain_offsets:
  assumes "0 \<le> t"
  shows "terrain1 (Landscape_useFrame t) - terrain2 (Landscape_useFrame t) = 2
       \<and> 0 \<le> terrain1 (Landscape_useFrame t) \<and> terrain1 (Landscape_useFrame t) < 2
       \<and> - 2 \<le> terrain2 (Landscape_useFrame t) \<and> terrain2 (Landscape_useFrame t) < 0"
proof -
  have "0 \<le> t * 0.15" using assms by simp
  from js_rem_nonneg [OF this] show ?thesis
    by (simp add: Landscape_useFrame_def)
qed

theorem terrain_offsets_witness:
  "(0::real) \<le> 10 \<and> terrain1 (Landscape_useFrame 10) = 1.5
   \<and> terrain2 (Landscape_useFrame 10) = - 0.5
   \<and> terrain1 (Landscape_useFrame 10) - terrain2 (Landscape_useFrame 10) = 2"
  using terrain_offsets [of 10]
  by (simp add: Landscape_useFrame_def js_rem_def trunc_def)




text \<open>
  C3. The claim caps the panels at \<open>maxPanels = 200\<close> records. The guard of the source is
  \<open>i > maxPanels\<close>, which lets the index 200 through: of 201 panels, all 201 are mounted.
\<close>

theorem Panels_201_panels:
  "Panels consts_js \<lparr>panels = numbered_panels 201, edges = []\<rparr> Home_selected
   = Inr \<lparr>panel_children =
            replicate 201
              (Some [Some \<lparr>key = 0, position = (0.7, 0, 5), radius = 0.004, color = Some ''#e84971''\<rparr>]),
          edge_children = []\<rparr>
   \<and> length (shown (replicate 201
              (Some [Some \<lparr>key = 0, position = (0.7, 0, 5), radius = 0.004, color = Some ''#e84971''\<rparr>]))) = 201"
  by (simp add: Panels_numbered shown_def)

text \<open>
  C4. The claim gives \<open>ceil(min(len, maxPerPanel) / k)\<close> points for a record. The guard
  \<open>i > maxPerPanel\<close> lets the index 3000 through: with the constants of the source a
  record of 3001 coordinates gives 301 points (the indices 0, 10, ..., 3000), where the
  claim gives \<open>ceil(3000 / 10) = 300\<close>.
\<close>

theorem Panel_3001_leds:
  "\<exists>out. Panel consts_js \<lparr>id_panel = Some ''P1'', leds = Some (replicate 3001 (0, 0, 0))\<rparr>
            (ledSize consts_js) (Some ''#e84971'') = Inr out
         \<and> length (shown out) = 301"
  using Panel_emits [of "\<lparr>id_panel = Some ''P1'', leds = Some (replicate 3001 (0, 0, 0))\<rparr>"
      "replicate 3001 (0, 0, 0)" consts_js "ledSize consts_js" "Some ''#e84971''"]
  by (simp add: consts_js_def)






text \<open>
  C8. The Clear button empties the panel entries and keeps \<open>colors\<close>; \<open>updateColor\<close>
  replaces the named color, keeps the other color and keeps every panel entry. Clear
  followed by setting the primary color to \<open>#abcdef\<close> gives no panel entries and that
  primary color, and the two updates commute.
\<close>

theorem clear_setColor_frame:
  "enabled (clear s) = []
   \<and> get (clear s) ''colors'' = get s ''colors''
   \<and> enabled (updateColor w v s) = enabled s
   \<and> color_of (updateColor w v s) w = Some v
   \<and> (w' \<noteq> w \<longrightarrow> color_of (updateColor w v s) w' = color_of s w')
   \<and> enabled (updateColor ''primary'' ''#abcdef'' (clear s)) = []
   \<and> color_of (updateColor ''primary'' ''#abcdef'' (clear s)) ''primary'' = Some ''#abcdef''
   \<and> clear (updateColor ''primary'' ''#abcdef'' s) = updateColor ''primary'' ''#abcdef'' (clear s)"
  by (simp add: enabled_updateColor enabled_clear)
     (simp add: clear_def updateColor_def color_of_def get_set_prop map_of_set_prop get_def inherited_def)

theorem clear_setColor_frame_witness:
  "''edge'' \<noteq> ''primary''
   \<and> enabled (clear (toggle ''P1'' Home_selected)) = []
   \<and> enabled (updateColor ''primary'' ''#abcdef'' (toggle ''P1'' Home_selected))
       = [(''P1'', JBool True)]
   \<and> color_of (updateColor ''primary'' ''#abcdef'' (toggle ''P1'' Home_selected)) ''edge''
       = Some ''#39f5e6''
   \<and> clear (updateColor ''primary'' ''#abcdef'' (toggle ''P1'' Home_selected))
       = [(''colors'', JObj [(''primary'', ''#abcdef''), (''edge'', ''#39f5e6'')])]
   \<and> updateColor ''primary'' ''#abcdef'' (clear (toggle ''P1'' Home_selected))
       = [(''colors'', JObj [(''primary'', ''#abcdef''), (''edge'', ''#39f5e6'')])]"
  using clear_setColor_frame [of "toggle ''P1'' Home_selected" "''primary''" "''#abcdef''" "''edge''"]
  by (simp add: Home_selected_def toggle_def clear_def updateColor_def enabled_def
      color_of_def get_def inherited_def)

text \<open>
  C9. The claim has a toggle of an absent entry set it to \<open>true\<close>, for every panel id.
  For an id that names a member of \<open>Object.prototype\<close> the read \<open>selected[id]\<close> of the
  absent entry is truthy, and the toggle creates the entry with value \<open>false\<close>.
\<close>

theorem toggle_constructor_counterexample:
  "map_of Home_selected ''constructor'' = None
   \<and> map_of (toggle ''constructor'' Home_selected) ''constructor'' = Some (JBool False)"
  by (simp add: Home_selected_def toggle_def get_def inherited_def map_of_set_prop)

text \<open>
  C9, as the code has it. A toggle of a key that is absent and is not a property name of
  \<open>Object.prototype\<close> creates the entry with value \<open>true\<close>. For every key, two toggles give
  back the value the entry is read as (\<open>!!selected[id]\<close>), and give back a boolean entry
  itself.
\<close>

theorem toggle_twice:
  "(map_of s k = None \<and> k \<notin> set inherited \<longrightarrow> map_of (toggle k s) k = Some (JBool True))
   \<and> truthy (get (toggle k (toggle k s)) k) = truthy (get s k)
   \<and> (get s k = JBool b \<longrightarrow> get (toggle k (toggle k s)) k = JBool b)"
  by (simp add: toggle_def get_set_prop map_of_set_prop) (simp add: get_def)

theorem toggle_twice_witness:
  "map_of Home_selected ''P1'' = None \<and> ''P1'' \<notin> set inherited
   \<and> map_of (toggle ''P1'' Home_selected) ''P1'' = Some (JBool True)
   \<and> get (toggle ''P1'' Home_selected) ''P1'' = JBool True
   \<and> get (toggle ''P1'' (toggle ''P1'' (toggle ''P1'' Home_selected))) ''P1'' = JBool True
   \<and> truthy (get (toggle ''P1'' (toggle ''P1'' Home_selected)) ''P1'')
       = truthy (get Home_selected ''P1'')"
  using toggle_twice [of Home_selected "''P1''"]
    toggle_twice [of "toggle ''P1'' Home_selected" "''P1''" True]
  by (simp add: Home_selected_def toggle_def get_def inherited_def)




end
